theory Spec2Isabelle
  imports Complex_Main "HOL-Library.Sublist"
begin

section \<open>Entity model\<close>

text \<open>
  The TypeScript types \<^verbatim>\<open>TaskTag\<close>, \<^verbatim>\<open>Task\<close>, \<^verbatim>\<open>TasksState\<close> and \<^verbatim>\<open>TaskAction\<close>
  of the task manager component. Field names are those of the source, except that
  \<^verbatim>\<open>id\<close>, \<^verbatim>\<open>name\<close> and \<^verbatim>\<open>tags\<close> occur in more than one type (and \<open>id\<close> is
  a constant of HOL), so the fields of a task are \<open>task_id\<close>, \<open>task_name\<close> and
  \<open>task_tags\<close> and those of a tag are \<open>tag_id\<close> and \<open>tag_name\<close>.

  A JavaScript \<^verbatim>\<open>Date\<close> holds a time value: a whole number of milliseconds since the
  epoch, or NaN for an invalid date. A \<^verbatim>\<open>number\<close> that the component stores
  (\<^verbatim>\<open>priority\<close>, \<^verbatim>\<open>position\<close>) is an integer.
\<close>

datatype date = Date int | Invalid_Date

record TaskTag =
  tag_id :: string
  tag_name :: string
  color :: string

record Task =
  task_id :: string
  task_name :: string
  description :: string
  dueDate :: date
  completed :: bool
  priority :: int
  task_tags :: "string list"
  createdAt :: date
  completedAt :: "date option"
  position :: int

record TasksState =
  tasks :: "Task list"
  tags :: "TaskTag list"

text \<open>
  The actions of the reducer. \<open>OTHER_ACTION\<close> stands for an action whose \<^verbatim>\<open>type\<close>
  is none of the nine of the union: the \<^verbatim>\<open>default\<close> branch of the reducer.
\<close>

datatype TaskAction =
    ADD_TASK Task
  | TOGGLE_TASK string date
  | DELETE_TASK string
  | EDIT_TASK Task
  | REPLACE_ALL TasksState
  | REORDER_TASKS "Task list"
  | ADD_TAG TaskTag
  | EDIT_TAG TaskTag
  | DELETE_TAG string
  | OTHER_ACTION string

section \<open>Mutation engine: the reducer\<close>

fun tasksReducer :: "TasksState \<Rightarrow> TaskAction \<Rightarrow> TasksState" where
  "tasksReducer state (ADD_TASK payload) =
     state\<lparr>tasks := tasks state @ [payload]\<rparr>"
| "tasksReducer state (TOGGLE_TASK ident d) =
     state\<lparr>tasks := map (\<lambda>task.
        if task_id task = ident
        then task\<lparr>completed := \<not> completed task,
                  completedAt := (if \<not> completed task then Some d else None)\<rparr>
        else task) (tasks state)\<rparr>"
| "tasksReducer state (DELETE_TASK payload) =
     state\<lparr>tasks := filter (\<lambda>task. task_id task \<noteq> payload) (tasks state)\<rparr>"
| "tasksReducer state (EDIT_TASK payload) =
     state\<lparr>tasks := map (\<lambda>task. if task_id task = task_id payload then payload else task)
                        (tasks state)\<rparr>"
| "tasksReducer state (REPLACE_ALL payload) = payload"
| "tasksReducer state (REORDER_TASKS payload) = state\<lparr>tasks := payload\<rparr>"
| "tasksReducer state (ADD_TAG payload) =
     state\<lparr>tags := tags state @ [payload]\<rparr>"
| "tasksReducer state (EDIT_TAG payload) =
     state\<lparr>tags := map (\<lambda>tag. if tag_id tag = tag_id payload then payload else tag)
                       (tags state)\<rparr>"
| "tasksReducer state (DELETE_TAG payload) =
     state\<lparr>tags := filter (\<lambda>tag. tag_id tag \<noteq> payload) (tags state),
           tasks := map (\<lambda>task. task\<lparr>task_tags := filter (\<lambda>tagId. tagId \<noteq> payload) (task_tags task)\<rparr>)
                        (tasks state)\<rparr>"
| "tasksReducer state (OTHER_ACTION ty) = state"

text \<open>
  The initial state of \<^verbatim>\<open>useReducer\<close>: the built-in seed data. The seed dates are
  offsets from \<^verbatim>\<open>Date.now()\<close>, the parameter \<open>now\<close>.
\<close>

definition day_ms :: int where
  "day_ms = 24 * 60 * 60 * 1000"

definition initialState :: "int \<Rightarrow> TasksState" where
  "initialState now = \<lparr>
     tasks = [
       \<lparr>task_id = ''1'', task_name = ''Complete React Project'',
        description = ''Finish developing the advanced task manager component'',
        dueDate = Date (now + 3 * day_ms), completed = False, priority = 4,
        task_tags = [''1''], createdAt = Date (now - 2 * day_ms),
        completedAt = None, position = 0\<rparr>,
       \<lparr>task_id = ''2'', task_name = ''Read React Hooks Book'',
        description = ''Read chapters 3-5 of the book'',
        dueDate = Date (now + 7 * day_ms), completed = False, priority = 2,
        task_tags = [''2''], createdAt = Date (now - 5 * day_ms),
        completedAt = None, position = 1\<rparr>,
       \<lparr>task_id = ''3'', task_name = ''Update Resume'',
        description = ''Add new skills and projects'',
        dueDate = Date (now - 2 * day_ms), completed = True, priority = 3,
        task_tags = [''3''], createdAt = Date (now - 10 * day_ms),
        completedAt = Some (Date (now - 1 * day_ms)), position = 2\<rparr>,
       \<lparr>task_id = ''4'', task_name = ''Prepare for Interview'',
        description = ''Research company and practice common questions'',
        dueDate = Date (now + 1 * day_ms), completed = False, priority = 5,
        task_tags = [''1'', ''3''], createdAt = Date (now - 3 * day_ms),
        completedAt = None, position = 3\<rparr>],
     tags = [
       \<lparr>tag_id = ''1'', tag_name = ''Work'', color = ''#3b82f6''\<rparr>,
       \<lparr>tag_id = ''2'', tag_name = ''Learning'', color = ''#10b981''\<rparr>,
       \<lparr>tag_id = ''3'', tag_name = ''Personal'', color = ''#8b5cf6''\<rparr>]\<rparr>"

text \<open>
  The invariant of the data model that ties \<^verbatim>\<open>completed\<close> to \<^verbatim>\<open>completedAt\<close>.
\<close>

definition completion_consistent :: "Task \<Rightarrow> bool" where
  "completion_consistent task = (completed task \<longleftrightarrow> completedAt task \<noteq> None)"

definition state_consistent :: "TasksState \<Rightarrow> bool" where
  "state_consistent state = list_all completion_consistent (tasks state)"

text \<open>The tasks an action carries in its payload.\<close>

fun payload_tasks :: "TaskAction \<Rightarrow> Task list" where
  "payload_tasks (ADD_TASK payload) = [payload]"
| "payload_tasks (EDIT_TASK payload) = [payload]"
| "payload_tasks (REPLACE_ALL payload) = tasks payload"
| "payload_tasks (REORDER_TASKS payload) = payload"
| "payload_tasks _ = []"

section \<open>Platform functions used by the view\<close>

text \<open>
  A string is a list of code units; the model covers the code units below 256.
  \<^verbatim>\<open>String.prototype.trim\<close> strips white space and line terminators at both ends,
  \<^verbatim>\<open>toLowerCase\<close> maps the upper-case letters to lower case, and
  \<^verbatim>\<open>includes\<close> is the substring test.
\<close>

definition is_space :: "char \<Rightarrow> bool" where
  "is_space c = ((of_char c :: nat) \<in> {9, 10, 11, 12, 13, 32, 160})"

definition trim :: "string \<Rightarrow> string" where
  "trim s = rev (dropWhile is_space (rev (dropWhile is_space s)))"

definition lower_char :: "char \<Rightarrow> char" where
  "lower_char c =
     (let n = (of_char c :: nat)
      in if (65 \<le> n \<and> n \<le> 90) \<or> (192 \<le> n \<and> n \<le> 214) \<or> (216 \<le> n \<and> n \<le> 222)
         then char_of (n + 32) else c)"

definition toLowerCase :: "string \<Rightarrow> string" where
  "toLowerCase s = map lower_char s"

fun String_includes :: "string \<Rightarrow> string \<Rightarrow> bool" where
  "String_includes [] q = (q = [])"
| "String_includes (c # cs) q = (prefix q (c # cs) \<or> String_includes cs q)"

text \<open>
  A JavaScript \<^verbatim>\<open>number\<close> where NaN can arise: the result of \<^verbatim>\<open>getTime\<close>,
  of a comparator, of \<^verbatim>\<open>Number.parseInt\<close>.
\<close>

datatype number = Num int | NaN

fun getTime :: "date \<Rightarrow> number" where
  "getTime (Date t) = Num t"
| "getTime Invalid_Date = NaN"

fun minus_number :: "number \<Rightarrow> number \<Rightarrow> number" where
  "minus_number (Num a) (Num b) = Num (a - b)"
| "minus_number _ _ = NaN"

text \<open>\<^verbatim>\<open>task.priority === priorityFilter\<close>: NaN is equal to nothing.\<close>

fun strict_equals :: "int \<Rightarrow> number \<Rightarrow> bool" where
  "strict_equals p (Num n) = (p = n)"
| "strict_equals p NaN = False"

text \<open>
  \<^verbatim>\<open>Array.prototype.sort\<close> with a comparator. The language requires the sort to be
  stable and reads a NaN from the comparator as \<open>+0\<close>. For a comparator that is a
  consistent ordering the result is determined: the stable sorted permutation, which
  insertion from the right computes. (For an inconsistent comparator the language leaves
  the order to the implementation.)
\<close>

fun SortCompare :: "('a \<Rightarrow> 'a \<Rightarrow> number) \<Rightarrow> 'a \<Rightarrow> 'a \<Rightarrow> int" where
  "SortCompare comparefn x y = (case comparefn x y of NaN \<Rightarrow> 0 | Num v \<Rightarrow> v)"

fun sort_insert :: "('a \<Rightarrow> 'a \<Rightarrow> number) \<Rightarrow> 'a \<Rightarrow> 'a list \<Rightarrow> 'a list" where
  "sort_insert comparefn x [] = [x]"
| "sort_insert comparefn x (y # ys) =
     (if SortCompare comparefn x y \<le> 0 then x # y # ys
      else y # sort_insert comparefn x ys)"

definition Array_sort :: "('a \<Rightarrow> 'a \<Rightarrow> number) \<Rightarrow> 'a list \<Rightarrow> 'a list" where
  "Array_sort comparefn xs = foldr (sort_insert comparefn) xs []"

text \<open>
  \<^verbatim>\<open>Number.parseInt\<close> with no radix: leading white space is skipped, then an optional
  sign, then a \<^verbatim>\<open>0x\<close> prefix selects radix 16 (radix 10 otherwise), and the longest
  prefix of digits is read; with no digit the result is NaN.
\<close>

definition digit_value :: "char \<Rightarrow> nat" where
  "digit_value c =
     (let n = (of_char c :: nat)
      in if 48 \<le> n \<and> n \<le> 57 then n - 48
         else if 97 \<le> n \<and> n \<le> 122 then n - 87
         else if 65 \<le> n \<and> n \<le> 90 then n - 55
         else 36)"

definition parseInt :: "string \<Rightarrow> number" where
  "parseInt inputString =
     (let s1 = dropWhile is_space inputString;
          sign = (if prefix ''-'' s1 then - 1 else 1 :: int);
          s2 = (if prefix ''-'' s1 \<or> prefix ''+'' s1 then drop 1 s1 else s1);
          hex = (prefix ''0x'' s2 \<or> prefix ''0X'' s2);
          radix = (if hex then 16 else 10 :: nat);
          s3 = (if hex then drop 2 s2 else s2);
          ds = takeWhile (\<lambda>c. digit_value c < radix) s3
      in if ds = [] then NaN
         else Num (sign * int (foldl (\<lambda>acc c. acc * radix + digit_value c) 0 ds)))"

section \<open>Derived view pipeline\<close>

datatype StatusFilter = Status_all | Status_completed | Status_active

datatype SortBy = By_dueDate | By_priority | By_name | By_createdAt

text \<open>
  The body of the \<^verbatim>\<open>useMemo\<close> that computes \<^verbatim>\<open>filteredAndSortedTasks\<close>, as a
  function of its dependencies. \<^verbatim>\<open>new Date(a.dueDate)\<close> copies a date, so
  its \<^verbatim>\<open>getTime()\<close> is that of \<^verbatim>\<open>a.dueDate\<close>. \<^verbatim>\<open>localeCompare\<close> depends on
  the locale of the platform and is a parameter.
\<close>

definition filteredAndSortedTasks ::
  "(string \<Rightarrow> string \<Rightarrow> int) \<Rightarrow> Task list \<Rightarrow> StatusFilter \<Rightarrow> number option \<Rightarrow> string option
     \<Rightarrow> SortBy \<Rightarrow> string \<Rightarrow> Task list" where
  "filteredAndSortedTasks localeCompare state_tasks statusFilter priorityFilter tagFilter
       sortBy searchQuery =
     (let filtered0 = state_tasks;
          filtered1 =
            (if trim searchQuery \<noteq> []
             then (let query = toLowerCase searchQuery
                   in filter (\<lambda>task. String_includes (toLowerCase (task_name task)) query
                                    \<or> String_includes (toLowerCase (description task)) query) filtered0)
             else filtered0);
          filtered2 =
            (if statusFilter = Status_completed then filter (\<lambda>task. completed task) filtered1
             else if statusFilter = Status_active then filter (\<lambda>task. \<not> completed task) filtered1
             else filtered1);
          filtered3 =
            (case priorityFilter of
               Some pf \<Rightarrow> filter (\<lambda>task. strict_equals (priority task) pf) filtered2
             | None \<Rightarrow> filtered2);
          filtered4 =
            (case tagFilter of
               Some tf \<Rightarrow> filter (\<lambda>task. tf \<in> set (task_tags task)) filtered3
             | None \<Rightarrow> filtered3)
      in case sortBy of
           By_dueDate \<Rightarrow>
             Array_sort (\<lambda>a b. minus_number (getTime (dueDate a)) (getTime (dueDate b))) filtered4
         | By_priority \<Rightarrow>
             Array_sort (\<lambda>a b. Num (priority b - priority a)) filtered4
         | By_name \<Rightarrow>
             Array_sort (\<lambda>a b. Num (localeCompare (task_name a) (task_name b))) filtered4
         | By_createdAt \<Rightarrow>
             Array_sort (\<lambda>a b. minus_number (getTime (createdAt b)) (getTime (createdAt a))) filtered4)"

text \<open>
  The handler of the priority select:
  \<^verbatim>\<open>(value) => setPriorityFilter(value ? Number.parseInt(value) : null)\<close>.
  A string is truthy unless it is empty. The result is the new \<^verbatim>\<open>priorityFilter\<close>.
\<close>

definition onPriorityValueChange :: "string \<Rightarrow> number option" where
  "onPriorityValueChange v = (if v \<noteq> [] then Some (parseInt v) else None)"

text \<open>
  The pipeline as the specification words it: the four filters in the order search,
  status, priority, tag, then a stable sort by descending priority.
\<close>

definition search_stage :: "string \<Rightarrow> Task list \<Rightarrow> Task list" where
  "search_stage searchQuery ts =
     (if trim searchQuery = [] then ts
      else filter (\<lambda>task. String_includes (toLowerCase (task_name task)) (toLowerCase searchQuery)
                       \<or> String_includes (toLowerCase (description task)) (toLowerCase searchQuery)) ts)"

fun status_stage :: "StatusFilter \<Rightarrow> Task list \<Rightarrow> Task list" where
  "status_stage Status_all ts = ts"
| "status_stage Status_completed ts = filter completed ts"
| "status_stage Status_active ts = filter (\<lambda>task. \<not> completed task) ts"

fun priority_stage :: "number option \<Rightarrow> Task list \<Rightarrow> Task list" where
  "priority_stage None ts = ts"
| "priority_stage (Some pf) ts = filter (\<lambda>task. strict_equals (priority task) pf) ts"

fun tag_stage :: "string option \<Rightarrow> Task list \<Rightarrow> Task list" where
  "tag_stage None ts = ts"
| "tag_stage (Some tf) ts = filter (\<lambda>task. tf \<in> set (task_tags task)) ts"

definition sort_priority_descending :: "Task list \<Rightarrow> Task list" where
  "sort_priority_descending ts = sort_key (\<lambda>task. - priority task) ts"

section \<open>Reorder intent construction\<close>

text \<open>
  \<^verbatim>\<open>handleDragEnd\<close>, as a function of the displayed list and of the drop result
  (\<^verbatim>\<open>result.source.index\<close>, and \<^verbatim>\<open>result.destination\<close>, which is null when the
  item is dropped outside the list). The drag-and-drop library reports indices that are
  natural numbers. The first \<^verbatim>\<open>splice\<close> removes the item at the
  source index; the second inserts it at the destination index, or at the end when the
  index is beyond the end. With a source index outside the list the first
  \<^verbatim>\<open>splice\<close> removes nothing and \<^verbatim>\<open>reorderedItem\<close> is undefined: the payload then
  holds an object that is not a task (\<open>Dispatch_malformed\<close>).
\<close>

datatype drag_outcome = No_dispatch | Dispatch TaskAction | Dispatch_malformed

definition handleDragEnd :: "Task list \<Rightarrow> nat \<Rightarrow> nat option \<Rightarrow> drag_outcome" where
  "handleDragEnd displayed source_index destination =
     (case destination of
        None \<Rightarrow> No_dispatch
      | Some destination_index \<Rightarrow>
          if source_index < length displayed then
            (let reorderedItem = displayed ! source_index;
                 items1 = take source_index displayed @ drop (Suc source_index) displayed;
                 items2 = take destination_index items1 @ [reorderedItem]
                            @ drop destination_index items1;
                 updatedItems = map (\<lambda>(index, item). item\<lparr>position := int index\<rparr>)
                                    (enumerate 0 items2)
             in Dispatch (REORDER_TASKS updatedItems))
          else Dispatch_malformed)"

text \<open>The state after the drop: the reducer applied to the dispatched action, if any.\<close>

fun after_drag :: "TasksState \<Rightarrow> drag_outcome \<Rightarrow> TasksState option" where
  "after_drag state No_dispatch = Some state"
| "after_drag state (Dispatch action) = Some (tasksReducer state action)"
| "after_drag state Dispatch_malformed = None"

section \<open>Analytics\<close>

text \<open>
  The first three statistics of \<^verbatim>\<open>TaskAnalytics\<close>. The division is that of the
  real numbers: the rounding of the floating-point division is not modelled.
\<close>

definition totalTasks :: "Task list \<Rightarrow> nat" where
  "totalTasks ts = length ts"

definition completedTasks :: "Task list \<Rightarrow> nat" where
  "completedTasks ts = length (filter (\<lambda>task. completed task) ts)"

definition completionRate :: "Task list \<Rightarrow> real" where
  "completionRate ts =
     (if totalTasks ts > 0 then (real (completedTasks ts) / real (totalTasks ts)) * 100 else 0)"

section \<open>Persistence bridge\<close>

text \<open>
  The load effect works on whatever \<^verbatim>\<open>JSON.parse\<close> returns, so it is modelled on
  run-time values. An object is the list of its properties in property order. A number
  is a finite number, modelled as an integer (\<open>VNum\<close>), or one of the three numbers
  that are not finite: NaN, Infinity and -Infinity.
\<close>

datatype jsval =
    VUndefined
  | VNull
  | VBool bool
  | VNum int
  | VNaN
  | VInfinity
  | VNeg_Infinity
  | VStr string
  | VDate date
  | VArr "jsval list"
  | VObj "(string \<times> jsval) list"

text \<open>
  The run-time value of a state of the reducer. The properties are listed in the order
  of the type declarations; saving and loading keep the order that the properties have.
  The priority and the position of a task of the reducer are integers, so the numbers
  of such a value are finite.
\<close>

definition js_of_tag :: "TaskTag \<Rightarrow> jsval" where
  "js_of_tag tag =
     VObj [(''id'', VStr (tag_id tag)), (''name'', VStr (tag_name tag)),
           (''color'', VStr (color tag))]"

definition js_of_task :: "Task \<Rightarrow> jsval" where
  "js_of_task task =
     VObj [(''id'', VStr (task_id task)),
           (''name'', VStr (task_name task)),
           (''description'', VStr (description task)),
           (''dueDate'', VDate (dueDate task)),
           (''completed'', VBool (completed task)),
           (''priority'', VNum (priority task)),
           (''tags'', VArr (map VStr (task_tags task))),
           (''createdAt'', VDate (createdAt task)),
           (''completedAt'', (case completedAt task of None \<Rightarrow> VNull | Some d \<Rightarrow> VDate d)),
           (''position'', VNum (position task))]"

definition js_of_state :: "TasksState \<Rightarrow> jsval" where
  "js_of_state state =
     VObj [(''tasks'', VArr (map js_of_task (tasks state))),
           (''tags'', VArr (map js_of_tag (tags state)))]"

text \<open>
  The value that \<^verbatim>\<open>JSON.stringify\<close> writes for a run-time value: a date is
  written through \<^verbatim>\<open>Date.prototype.toJSON\<close>, which is \<^verbatim>\<open>toISOString()\<close> for a
  valid date and null for an invalid one; a number that is not finite is written as
  null; an undefined property is left out and an undefined array element is written as
  null. \<^verbatim>\<open>toISOString\<close> is a parameter.
\<close>

fun JSON_value :: "(int \<Rightarrow> string) \<Rightarrow> jsval \<Rightarrow> jsval" where
  "JSON_value toISOString (VDate (Date t)) = VStr (toISOString t)"
| "JSON_value toISOString (VDate Invalid_Date) = VNull"
| "JSON_value toISOString VNaN = VNull"
| "JSON_value toISOString VInfinity = VNull"
| "JSON_value toISOString VNeg_Infinity = VNull"
| "JSON_value toISOString (VArr xs) =
     VArr (map (\<lambda>x. if x = VUndefined then VNull else JSON_value toISOString x) xs)"
| "JSON_value toISOString (VObj ps) =
     VObj (map (\<lambda>p. (fst p, JSON_value toISOString (snd p)))
               (filter (\<lambda>p. snd p \<noteq> VUndefined) ps))"
| "JSON_value toISOString v = v"

text \<open>
  The text in the store. \<^verbatim>\<open>JSON.parse\<close> and the text that \<^verbatim>\<open>JSON.stringify\<close>
  writes belong to the platform, so a text is represented by what \<^verbatim>\<open>JSON.parse\<close>
  makes of it: it is the JSON text of a value, or it is malformed (the empty string,
  which is the only falsy string, is a malformed text).
\<close>

datatype stored_text = Malformed string | Json_text jsval

text \<open>What the load effect can throw inside its \<^verbatim>\<open>try\<close>.\<close>

datatype js_error = SyntaxError | TypeError

fun JSON_parse :: "stored_text \<Rightarrow> js_error + jsval" where
  "JSON_parse (Malformed s) = Inl SyntaxError"
| "JSON_parse (Json_text v) = Inr v"

text \<open>\<^verbatim>\<open>JSON.stringify(undefined)\<close> is undefined, which the store keeps as a string.\<close>

definition JSON_stringify :: "(int \<Rightarrow> string) \<Rightarrow> jsval \<Rightarrow> stored_text" where
  "JSON_stringify toISOString v =
     (if v = VUndefined then Malformed ''undefined'' else Json_text (JSON_value toISOString v))"

text \<open>
  The save effect: \<^verbatim>\<open>localStorage.setItem("advancedTasks", JSON.stringify(state))\<close>.
  The store maps keys to texts.
\<close>

definition save_effect ::
  "(int \<Rightarrow> string) \<Rightarrow> jsval \<Rightarrow> (string \<rightharpoonup> stored_text) \<Rightarrow> (string \<rightharpoonup> stored_text)" where
  "save_effect toISOString state localStorage =
     localStorage(''advancedTasks'' \<mapsto> JSON_stringify toISOString state)"

text \<open>
  Reading a property whose name is neither an index nor a built-in property
  (\<^verbatim>\<open>tasks\<close>, \<^verbatim>\<open>tags\<close>, \<^verbatim>\<open>dueDate\<close>, \<^verbatim>\<open>createdAt\<close>, \<^verbatim>\<open>completedAt\<close>):
  a TypeError on null and undefined, the property of an object, undefined on
  everything else.
\<close>

fun get_field :: "jsval \<Rightarrow> string \<Rightarrow> js_error + jsval" where
  "get_field VUndefined k = Inl TypeError"
| "get_field VNull k = Inl TypeError"
| "get_field (VObj ps) k = Inr (case map_of ps k of None \<Rightarrow> VUndefined | Some v \<Rightarrow> v)"
| "get_field v k = Inr VUndefined"

fun truthy :: "jsval \<Rightarrow> bool" where
  "truthy VUndefined = False"
| "truthy VNull = False"
| "truthy (VBool b) = b"
| "truthy (VNum n) = (n \<noteq> 0)"
| "truthy VNaN = False"
| "truthy (VStr s) = (s \<noteq> [])"
| "truthy v = True"

text \<open>Decimal digits of an index, for the keys of a spread array or string.\<close>

fun show_nat :: "nat \<Rightarrow> string" where
  "show_nat n =
     (if n < 10 then [char_of (48 + n)]
      else show_nat (n div 10) @ [char_of (48 + n mod 10)])"

text \<open>
  The own enumerable properties that \<^verbatim>\<open>{...task}\<close> copies: those of an object, the
  indexed elements of an array or string, nothing for another value.
\<close>

fun spread :: "jsval \<Rightarrow> (string \<times> jsval) list" where
  "spread (VObj ps) = ps"
| "spread (VArr xs) = map (\<lambda>(i, x). (show_nat i, x)) (enumerate 0 xs)"
| "spread (VStr s) = map (\<lambda>(i, c). (show_nat i, VStr [c])) (enumerate 0 s)"
| "spread v = []"

text \<open>
  A property written in an object literal after a spread: it replaces the property of
  that name in place, or is added at the end.
\<close>

fun set_prop :: "string \<Rightarrow> jsval \<Rightarrow> (string \<times> jsval) list \<Rightarrow> (string \<times> jsval) list" where
  "set_prop k v [] = [(k, v)]"
| "set_prop k v (p # ps) = (if fst p = k then (k, v) # ps else p # set_prop k v ps)"

text \<open>
  \<^verbatim>\<open>new Date(v)\<close>. Undefined gives an invalid date; null, a boolean and a number
  give the date of that number of milliseconds, if it is finite and in the range of a
  date (\<^verbatim>\<open>TimeClip\<close>); a date is copied. A string is parsed, and an array or an object is
  converted to a string and parsed: that is \<open>Date_parse\<close>, a parameter.
\<close>

definition TimeClip :: "int \<Rightarrow> date" where
  "TimeClip t = (if \<bar>t\<bar> \<le> 8640000000000000 then Date t else Invalid_Date)"

fun new_Date :: "(jsval \<Rightarrow> date) \<Rightarrow> jsval \<Rightarrow> date" where
  "new_Date Date_parse VUndefined = Invalid_Date"
| "new_Date Date_parse VNull = Date 0"
| "new_Date Date_parse (VBool b) = Date (if b then 1 else 0)"
| "new_Date Date_parse (VNum n) = TimeClip n"
| "new_Date Date_parse VNaN = Invalid_Date"
| "new_Date Date_parse VInfinity = Invalid_Date"
| "new_Date Date_parse VNeg_Infinity = Invalid_Date"
| "new_Date Date_parse (VDate d) = d"
| "new_Date Date_parse v = Date_parse v"

text \<open>
  The callback of \<^verbatim>\<open>parsedData.tasks.map\<close>. The spread comes first and does not
  throw; reading \<^verbatim>\<open>task.dueDate\<close> is what throws when the element is null.
\<close>

definition rehydrate_task :: "(jsval \<Rightarrow> date) \<Rightarrow> jsval \<Rightarrow> js_error + jsval" where
  "rehydrate_task Date_parse task =
     (case get_field task ''dueDate'' of
        Inl e \<Rightarrow> Inl e
      | Inr due \<Rightarrow>
     (case get_field task ''createdAt'' of
        Inl e \<Rightarrow> Inl e
      | Inr created \<Rightarrow>
     (case get_field task ''completedAt'' of
        Inl e \<Rightarrow> Inl e
      | Inr completed_value \<Rightarrow>
          Inr (VObj
            (set_prop ''completedAt''
               (if truthy completed_value then VDate (new_Date Date_parse completed_value)
                else VNull)
            (set_prop ''createdAt'' (VDate (new_Date Date_parse created))
            (set_prop ''dueDate'' (VDate (new_Date Date_parse due))
            (spread task))))))))"

text \<open>\<^verbatim>\<open>Array.prototype.map\<close> with a callback that may throw: the first throw ends it.\<close>

fun map_throwing :: "('a \<Rightarrow> js_error + 'b) \<Rightarrow> 'a list \<Rightarrow> js_error + 'b list" where
  "map_throwing f [] = Inr []"
| "map_throwing f (x # xs) =
     (case f x of
        Inl e \<Rightarrow> Inl e
      | Inr y \<Rightarrow> (case map_throwing f xs of Inl e \<Rightarrow> Inl e | Inr ys \<Rightarrow> Inr (y # ys)))"

text \<open>
  The object \<^verbatim>\<open>tasksWithDates\<close> built from \<^verbatim>\<open>parsedData\<close>. Calling
  \<^verbatim>\<open>parsedData.tasks.map\<close> throws a TypeError unless \<^verbatim>\<open>parsedData.tasks\<close> is an
  array: a value that comes from \<^verbatim>\<open>JSON.parse\<close> holds no function.
\<close>

definition tasksWithDates :: "(jsval \<Rightarrow> date) \<Rightarrow> jsval \<Rightarrow> js_error + jsval" where
  "tasksWithDates Date_parse parsedData =
     (case get_field parsedData ''tasks'' of
        Inl e \<Rightarrow> Inl e
      | Inr VArr_tasks \<Rightarrow>
     (case VArr_tasks of
        VArr xs \<Rightarrow>
          (case map_throwing (rehydrate_task Date_parse) xs of
             Inl e \<Rightarrow> Inl e
           | Inr ys \<Rightarrow>
          (case get_field parsedData ''tags'' of
             Inl e \<Rightarrow> Inl e
           | Inr parsed_tags \<Rightarrow> Inr (VObj [(''tasks'', VArr ys), (''tags'', parsed_tags)])))
      | _ \<Rightarrow> Inl TypeError))"

text \<open>
  The load effect, run once after the first render. The result is the state after the
  effect and what the effect passed to \<^verbatim>\<open>console.error\<close>. The state changes
  only through the dispatch of \<^verbatim>\<open>REPLACE_ALL\<close>, for which the reducer returns the
  payload.
\<close>

definition load_effect ::
  "(jsval \<Rightarrow> date) \<Rightarrow> (string \<rightharpoonup> stored_text) \<Rightarrow> jsval \<Rightarrow> jsval \<times> js_error list" where
  "load_effect Date_parse localStorage state =
     (case localStorage ''advancedTasks'' of
        None \<Rightarrow> (state, [])
      | Some savedTasks \<Rightarrow>
          if savedTasks = Malformed [] then (state, [])
          else
            (case JSON_parse savedTasks of
               Inl error \<Rightarrow> (state, [error])
             | Inr parsedData \<Rightarrow>
                 (case tasksWithDates Date_parse parsedData of
                    Inl error \<Rightarrow> (state, [error])
                  | Inr payload \<Rightarrow> (payload, []))))"


text \<open>
  A valid date that the platform writes as a non-empty string and reads back as the
  same date, as it does for every valid date.
\<close>

fun round_trips :: "(int \<Rightarrow> string) \<Rightarrow> (jsval \<Rightarrow> date) \<Rightarrow> date \<Rightarrow> bool" where
  "round_trips toISOString Date_parse (Date t) =
     (toISOString t \<noteq> [] \<and> Date_parse (VStr (toISOString t)) = Date t)"
| "round_trips toISOString Date_parse Invalid_Date = False"

definition dates_round_trip :: "(int \<Rightarrow> string) \<Rightarrow> (jsval \<Rightarrow> date) \<Rightarrow> Task \<Rightarrow> bool" where
  "dates_round_trip toISOString Date_parse task =
     (round_trips toISOString Date_parse (dueDate task)
      \<and> round_trips toISOString Date_parse (createdAt task)
      \<and> (case completedAt task of
            None \<Rightarrow> True
          | Some d \<Rightarrow> round_trips toISOString Date_parse d))"

section \<open>The date format of the platform\<close>

text \<open>
  \<^verbatim>\<open>Date.prototype.toISOString\<close> writes a valid date in the format
  \<^verbatim>\<open>YYYY-MM-DDTHH:mm:ss.sssZ\<close> of the proleptic Gregorian calendar in UTC, with a
  sign and six digits for a year outside 0..9999. \<open>civil_from_days\<close> is the calendar
  date of a day number counted from the epoch and \<open>days_from_civil\<close> its inverse.
  \<open>ISO_Date_parse\<close> reads that format and gives an invalid date for every other
  argument. (The platform's parser reads more formats; the theorems about the load
  effect hold for every parser.)
\<close>

fun pad :: "nat \<Rightarrow> nat \<Rightarrow> string" where
  "pad 0 n = []"
| "pad (Suc w) n = pad w (n div 10) @ [''0123456789'' ! (n mod 10)]"

definition civil_from_days :: "int \<Rightarrow> int \<times> nat \<times> nat" where
  "civil_from_days z =
     (let z1 = z + 719468;
          era = z1 div 146097;
          doe = z1 - era * 146097;
          yoe = (doe - doe div 1460 + doe div 36524 - doe div 146096) div 365;
          doy = doe - (365 * yoe + yoe div 4 - yoe div 100);
          mp = (5 * doy + 2) div 153;
          d = doy - (153 * mp + 2) div 5 + 1;
          m = (if mp < 10 then mp + 3 else mp - 9);
          y = yoe + era * 400 + (if m \<le> 2 then 1 else 0)
      in (y, nat m, nat d))"

definition days_from_civil :: "int \<Rightarrow> int \<Rightarrow> int \<Rightarrow> int" where
  "days_from_civil y m d =
     (let y1 = (if m \<le> 2 then y - 1 else y);
          era = y1 div 400;
          yoe = y1 - era * 400;
          doy = (153 * (if m > 2 then m - 3 else m + 9) + 2) div 5 + d - 1;
          doe = yoe * 365 + yoe div 4 - yoe div 100 + doy
      in era * 146097 + doe - 719468)"

definition ISO_toISOString :: "int \<Rightarrow> string" where
  "ISO_toISOString t =
     (let days = t div 86400000;
          ms = nat (t mod 86400000);
          (y, m, d) = civil_from_days days;
          year = (if 0 \<le> y \<and> y \<le> 9999 then pad 4 (nat y)
                  else (if y < 0 then ''-'' else ''+'') @ pad 6 (nat \<bar>y\<bar>))
      in year @ ''-'' @ pad 2 m @ ''-'' @ pad 2 d @ ''T'' @ pad 2 (ms div 3600000) @ '':''
           @ pad 2 (ms div 60000 mod 60) @ '':'' @ pad 2 (ms div 1000 mod 60) @ ''.''
           @ pad 3 (ms mod 1000) @ ''Z'')"

definition is_digit :: "char \<Rightarrow> bool" where
  "is_digit c = (48 \<le> (of_char c :: nat) \<and> (of_char c :: nat) \<le> 57)"

definition digits_value :: "string \<Rightarrow> int" where
  "digits_value s = int (foldl (\<lambda>acc c. acc * 10 + ((of_char c :: nat) - 48)) 0 s)"

definition days_in_month :: "int \<Rightarrow> int \<Rightarrow> int" where
  "days_in_month y m =
     (if m = 2 then (if y mod 4 = 0 \<and> (y mod 100 \<noteq> 0 \<or> y mod 400 = 0) then 29 else 28)
      else if m \<in> {4, 6, 9, 11} then 30 else 31)"

definition ISO_parse :: "string \<Rightarrow> date" where
  "ISO_parse s =
     (let signed = (take 1 s = ''-'' \<or> take 1 s = ''+'');
          ys = (if signed then take 6 (drop 1 s) else take 4 s);
          rest = (if signed then drop 7 s else drop 4 s);
          mo = take 2 (drop 1 rest); dd = take 2 (drop 4 rest); hh = take 2 (drop 7 rest);
          mi = take 2 (drop 10 rest); ss = take 2 (drop 13 rest); ms = take 3 (drop 16 rest);
          y = (if take 1 s = ''-'' then - digits_value ys else digits_value ys);
          m = digits_value mo; d = digits_value dd
      in if length ys = (if signed then 6 else 4) \<and> length rest = 20
            \<and> map (\<lambda>i. rest ! i) [0, 3, 6, 9, 12, 15, 19] = ''--T::.Z''
            \<and> list_all is_digit (ys @ mo @ dd @ hh @ mi @ ss @ ms)
            \<and> 1 \<le> m \<and> m \<le> 12 \<and> 1 \<le> d \<and> d \<le> days_in_month y m
            \<and> digits_value hh \<le> 23 \<and> digits_value mi \<le> 59 \<and> digits_value ss \<le> 59
         then TimeClip (days_from_civil y m d * 86400000 + digits_value hh * 3600000
                      + digits_value mi * 60000 + digits_value ss * 1000 + digits_value ms)
         else Invalid_Date)"

definition ISO_Date_parse :: "jsval \<Rightarrow> date" where
  "ISO_Date_parse v = (case v of VStr s \<Rightarrow> ISO_parse s | _ \<Rightarrow> Invalid_Date)"

section \<open>Example states\<close>

text \<open>
  The first seed task, marked completed with no completion time: a payload that
  \<^verbatim>\<open>EDIT_TASK\<close> accepts.
\<close>

definition completed_without_time :: Task where
  "completed_without_time = (hd (tasks (initialState 0)))\<lparr>completed := True\<rparr>"

text \<open>A task with an identifier that no seed task has.\<close>

definition unknown_task :: Task where
  "unknown_task = \<lparr>task_id = ''9'', task_name = ''Unknown'', description = [],
     dueDate = Date 0, completed = False, priority = 1, task_tags = [],
     createdAt = Date 0, completedAt = None, position = 0\<rparr>"

definition unknown_tag :: TaskTag where
  "unknown_tag = \<lparr>tag_id = ''9'', tag_name = ''Unknown'', color = ''#000000''\<rparr>"

text \<open>
  A state with one completed task, all of whose dates are the epoch.
\<close>

definition epoch_state :: TasksState where
  "epoch_state = \<lparr>
     tasks = [\<lparr>task_id = ''1'', task_name = ''Task'', description = [],
               dueDate = Date 0, completed = True, priority = 3, task_tags = [''1''],
               createdAt = Date 0, completedAt = Some (Date 0), position = 0\<rparr>],
     tags = [\<lparr>tag_id = ''1'', tag_name = ''Work'', color = ''#3b82f6''\<rparr>]\<rparr>"


text \<open>A value of \<^verbatim>\<open>Date.now()\<close> for the seed state: 14 November 2023, 22:13:20 UTC.\<close>

definition seed_now :: int where
  "seed_now = 1700000000000"

text \<open>
  The state \<open>epoch_state\<close> with an invalid date as the creation date of its task.
\<close>

definition invalid_created_state :: TasksState where
  "invalid_created_state =
     epoch_state\<lparr>tasks := map (\<lambda>task. task\<lparr>createdAt := Invalid_Date\<rparr>) (tasks epoch_state)\<rparr>"

text \<open>
  The run-time value of the state \<open>epoch_state\<close> with Infinity as the priority of its
  task: a value of the type \<^verbatim>\<open>TasksState\<close>, whose \<^verbatim>\<open>priority\<close> is a
  \<^verbatim>\<open>number\<close>.
\<close>

definition infinite_priority_state :: jsval where
  "infinite_priority_state =
     VObj [(''tasks'', VArr (map (\<lambda>task. VObj (set_prop ''priority'' VInfinity
                                                (spread (js_of_task task))))
                              (tasks epoch_state))),
           (''tags'', VArr (map js_of_tag (tags epoch_state)))]"

text \<open>
  Two stored values of the layout that the save effect writes. In the first the
  creation date is a string that is no date. The second is what \<^verbatim>\<open>JSON.parse\<close> returns
  for a text whose priority is written \<^verbatim>\<open>1e999\<close>, a number beyond the range of the
  finite numbers.
\<close>

definition unreadable_created_json :: jsval where
  "unreadable_created_json =
     VObj [(''tasks'', VArr [
              VObj [(''id'', VStr ''1''),
                    (''name'', VStr ''Task''),
                    (''description'', VStr []),
                    (''dueDate'', VStr ''1970-01-01T00:00:00.000Z''),
                    (''completed'', VBool True),
                    (''priority'', VNum 3),
                    (''tags'', VArr [VStr ''1'']),
                    (''createdAt'', VStr ''soon''),
                    (''completedAt'', VStr ''1970-01-01T00:00:00.000Z''),
                    (''position'', VNum 0)]]),
           (''tags'', VArr [
              VObj [(''id'', VStr ''1''), (''name'', VStr ''Work''),
                    (''color'', VStr ''#3b82f6'')]])]"

definition huge_priority_json :: jsval where
  "huge_priority_json =
     VObj [(''tasks'', VArr [
              VObj [(''id'', VStr ''1''),
                    (''name'', VStr ''Task''),
                    (''description'', VStr []),
                    (''dueDate'', VStr ''1970-01-01T00:00:00.000Z''),
                    (''completed'', VBool True),
                    (''priority'', VInfinity),
                    (''tags'', VArr [VStr ''1'']),
                    (''createdAt'', VStr ''1970-01-01T00:00:00.000Z''),
                    (''completedAt'', VStr ''1970-01-01T00:00:00.000Z''),
                    (''position'', VNum 0)]]),
           (''tags'', VArr [
              VObj [(''id'', VStr ''1''), (''name'', VStr ''Work''),
                    (''color'', VStr ''#3b82f6'')]])]"

section \<open>Properties of the reducer\<close>

lemma map_if_no_match:
  "\<forall>x \<in> set xs. \<not> P x \<Longrightarrow> map (\<lambda>x. if P x then y else x) xs = xs"
  by (induction xs) auto

text \<open>
  Claim C2, as amended. The invariant \<^verbatim>\<open>completed\<close> if and only if \<^verbatim>\<open>completedAt\<close>
  is present is preserved by the reducer for every action whose payload tasks satisfy
  it themselves. \<^verbatim>\<open>TOGGLE_TASK\<close>, \<^verbatim>\<open>DELETE_TASK\<close> and the three tag actions
  carry no task, so they preserve it with no condition; \<^verbatim>\<open>ADD_TASK\<close>,
  \<^verbatim>\<open>EDIT_TASK\<close>, \<^verbatim>\<open>REPLACE_ALL\<close> and \<^verbatim>\<open>REORDER_TASKS\<close> store their payload as
  it is.
\<close>

theorem consistency_preserved:
  assumes "state_consistent state"
    and "list_all completion_consistent (payload_tasks action)"
  shows "state_consistent (tasksReducer state action)"
  using assms
  by (cases action)
     (auto simp: state_consistent_def list_all_iff completion_consistent_def)

theorem consistency_preserved_witness:
  "state_consistent (initialState 0) \<and>
   list_all completion_consistent (payload_tasks (ADD_TASK unknown_task)) \<and>
   state_consistent (tasksReducer (initialState 0) (ADD_TASK unknown_task)) \<and>
   state_consistent (tasksReducer (initialState 0) (TOGGLE_TASK ''3'' (Date 7)))"
proof -
  have h1: "state_consistent (initialState 0)"
    by (simp add: state_consistent_def completion_consistent_def initialState_def)
  have h2: "list_all completion_consistent (payload_tasks (ADD_TASK unknown_task))"
    by (simp add: completion_consistent_def unknown_task_def)
  have h3: "list_all completion_consistent (payload_tasks (TOGGLE_TASK ''3'' (Date 7)))"
    by simp
  from consistency_preserved [OF h1 h2] consistency_preserved [OF h1 h3] h1 h2
  show ?thesis by simp
qed

text \<open>
  Claim C2 as it is stated fails: the seed state satisfies the invariant, and
  \<^verbatim>\<open>EDIT_TASK\<close> with a payload that is completed and has no completion time yields
  a state that does not.
\<close>

theorem invariant_broken_by_edit:
  "state_consistent (initialState 0) \<and>
   \<not> state_consistent (tasksReducer (initialState 0) (EDIT_TASK completed_without_time))"
  by (simp add: state_consistent_def completion_consistent_def initialState_def
        completed_without_time_def)

text \<open>
  Claim C3, as amended. For a task of the state with the given id, \<^verbatim>\<open>TOGGLE_TASK\<close>
  flips \<^verbatim>\<open>completed\<close> and sets \<^verbatim>\<open>completedAt\<close> to the supplied date when the
  task becomes completed and to null when it becomes uncompleted. When the task was
  not completed and had no completion time, toggling it twice restores the task: its
  \<^verbatim>\<open>completed\<close> is the original one and its \<^verbatim>\<open>completedAt\<close> is null again.
\<close>

theorem TOGGLE_TASK_flips_and_restores:
  assumes "i < length (tasks state)" and "task_id (tasks state ! i) = ident"
  shows "completed (tasks (tasksReducer state (TOGGLE_TASK ident d)) ! i)
           = (\<not> completed (tasks state ! i)) \<and>
         completedAt (tasks (tasksReducer state (TOGGLE_TASK ident d)) ! i)
           = (if completed (tasks state ! i) then None else Some d) \<and>
         (\<not> completed (tasks state ! i) \<and> completedAt (tasks state ! i) = None \<longrightarrow>
            tasks (tasksReducer (tasksReducer state (TOGGLE_TASK ident d)) (TOGGLE_TASK ident d'))
              ! i = tasks state ! i)"
  using assms by simp

theorem TOGGLE_TASK_flips_and_restores_witness:
  "completed (tasks (tasksReducer (initialState 0) (TOGGLE_TASK ''1'' (Date 5))) ! 0) \<and>
   completedAt (tasks (tasksReducer (initialState 0) (TOGGLE_TASK ''1'' (Date 5))) ! 0)
     = Some (Date 5) \<and>
   tasks (tasksReducer (tasksReducer (initialState 0) (TOGGLE_TASK ''1'' (Date 5)))
            (TOGGLE_TASK ''1'' (Date 6))) ! 0 = tasks (initialState 0) ! 0"
proof -
  have h1: "0 < length (tasks (initialState 0))"
    and h2: "task_id (tasks (initialState 0) ! 0) = ''1''"
    and h3: "\<not> completed (tasks (initialState 0) ! 0)"
    and h4: "completedAt (tasks (initialState 0) ! 0) = None"
    by (simp_all add: initialState_def)
  from TOGGLE_TASK_flips_and_restores [OF h1 h2, of "Date 5" "Date 6"] h3 h4
  show ?thesis by simp
qed

text \<open>
  Claim C3 as it is stated fails for a task that is completed and has no completion
  time, which the reducer stores when \<^verbatim>\<open>EDIT_TASK\<close> carries it: the original
  \<^verbatim>\<open>completedAt\<close> is null, and after two toggles it is the date of the second.
\<close>

theorem toggle_twice_sets_completedAt:
  "task_id (tasks (tasksReducer (initialState 0) (EDIT_TASK completed_without_time)) ! 0) = ''1'' \<and>
   completedAt (tasks (tasksReducer (initialState 0) (EDIT_TASK completed_without_time)) ! 0)
     = None \<and>
   completedAt (tasks
      (tasksReducer
        (tasksReducer (tasksReducer (initialState 0) (EDIT_TASK completed_without_time))
           (TOGGLE_TASK ''1'' (Date 1)))
        (TOGGLE_TASK ''1'' (Date 2))) ! 0) = Some (Date 2)"
  by (simp add: initialState_def completed_without_time_def)

text \<open>
  Claim C4. After \<^verbatim>\<open>DELETE_TAG\<close> with an id, from any state, no tag of the state has
  that id and no task of the state has it among its tags.
\<close>

theorem DELETE_TAG_leaves_no_reference:
  "(\<forall>tag \<in> set (tags (tasksReducer state (DELETE_TAG ident))). tag_id tag \<noteq> ident) \<and>
   (\<forall>task \<in> set (tasks (tasksReducer state (DELETE_TAG ident))). ident \<notin> set (task_tags task))"
  by auto

theorem DELETE_TAG_leaves_no_reference_witness:
  "map tag_id (tags (tasksReducer (initialState 0) (DELETE_TAG ''3''))) = [''1'', ''2''] \<and>
   map task_tags (tasks (tasksReducer (initialState 0) (DELETE_TAG ''3'')))
     = [[''1''], [''2''], [], [''1'']]"
  using DELETE_TAG_leaves_no_reference [of "initialState 0" "''3''"]
  by (simp add: initialState_def)

text \<open>
  Claim C9. \<^verbatim>\<open>EDIT_TASK\<close> with a payload whose id is the id of no task of the state,
  and \<^verbatim>\<open>EDIT_TAG\<close> with a payload whose id is the id of no tag of the state, each
  return the state they were given: nothing is raised and nothing changes.
\<close>

theorem edit_of_unknown_id_is_noop:
  "((\<forall>task \<in> set (tasks state). task_id task \<noteq> task_id payload)
      \<longrightarrow> tasksReducer state (EDIT_TASK payload) = state) \<and>
   ((\<forall>tag \<in> set (tags state). tag_id tag \<noteq> tag_id tag_payload)
      \<longrightarrow> tasksReducer state (EDIT_TAG tag_payload) = state)"
  by (simp add: map_if_no_match)

theorem edit_of_unknown_id_is_noop_witness:
  "map task_id (tasks (initialState 0)) = [''1'', ''2'', ''3'', ''4''] \<and>
   task_id unknown_task = ''9'' \<and>
   tasksReducer (initialState 0) (EDIT_TASK unknown_task) = initialState 0 \<and>
   map tag_id (tags (initialState 0)) = [''1'', ''2'', ''3''] \<and>
   tag_id unknown_tag = ''9'' \<and>
   tasksReducer (initialState 0) (EDIT_TAG unknown_tag) = initialState 0"
proof -
  have h1: "\<forall>task \<in> set (tasks (initialState 0)). task_id task \<noteq> task_id unknown_task"
    by (simp add: initialState_def unknown_task_def)
  have h2: "\<forall>tag \<in> set (tags (initialState 0)). tag_id tag \<noteq> tag_id unknown_tag"
    by (simp add: initialState_def unknown_tag_def)
  have ids: "map task_id (tasks (initialState 0)) = [''1'', ''2'', ''3'', ''4'']"
    "map tag_id (tags (initialState 0)) = [''1'', ''2'', ''3'']"
    "task_id unknown_task = ''9''" "tag_id unknown_tag = ''9''"
    by (simp_all add: initialState_def unknown_task_def unknown_tag_def)
  from edit_of_unknown_id_is_noop [of "initialState 0" unknown_task unknown_tag] h1 h2 ids
  show ?thesis by simp
qed

section \<open>Properties of the derived view\<close>

lemma sort_insert_priority:
  "sort_insert (\<lambda>a b. Num (priority b - priority a)) x ys
     = insort_key (\<lambda>task. - priority task) x ys"
  by (induction ys) auto

lemma Array_sort_priority:
  "Array_sort (\<lambda>a b. Num (priority b - priority a)) xs = sort_priority_descending xs"
  by (induction xs)
     (simp_all add: Array_sort_def sort_priority_descending_def sort_insert_priority)

lemma Array_sort_Nil: "Array_sort comparefn [] = []"
  by (simp add: Array_sort_def)

lemma trim_empty: "trim [] = []"
  by (simp add: trim_def)

lemma pipeline_by_priority:
  "filteredAndSortedTasks localeCompare ts statusFilter priorityFilter tagFilter By_priority q
     = sort_priority_descending
         (tag_stage tagFilter (priority_stage priorityFilter
            (status_stage statusFilter (search_stage q ts))))"
  by (cases statusFilter; cases priorityFilter; cases tagFilter)
     (simp_all add: filteredAndSortedTasks_def Array_sort_priority search_stage_def Let_def)

lemma sorted_priority_descending:
  "sorted_wrt (\<lambda>a b. priority a \<ge> priority b) (sort_priority_descending ts)"
proof -
  have "sorted (map (\<lambda>task. - priority task) (sort_key (\<lambda>task. - priority task) ts))"
    by (rule sorted_sort_key)
  then show ?thesis
    by (simp add: sort_priority_descending_def sorted_wrt_map)
qed

text \<open>
  Claim C5. For four tasks of priorities 4, 2, 3 and 5 of which the one of priority 3 is
  the only completed one, the view with an empty search query, the status filter
  \<^verbatim>\<open>active\<close>, no priority filter, no tag filter and \<^verbatim>\<open>sortBy\<close> \<^verbatim>\<open>priority\<close> is the
  three other tasks in the order 5, 4, 2. For every input with that sort key, the view is
  the search filter, then the status filter, then the priority filter, then the tag
  filter, then the stable sort by descending priority, and it is in descending order of
  priority.
\<close>

theorem pipeline_active_by_priority:
  "(priority t1 = 4 \<and> priority t2 = 2 \<and> priority t3 = 3 \<and> priority t4 = 5
      \<and> \<not> completed t1 \<and> \<not> completed t2 \<and> completed t3 \<and> \<not> completed t4
      \<longrightarrow> filteredAndSortedTasks localeCompare [t1, t2, t3, t4] Status_active None None
            By_priority [] = [t4, t1, t2]) \<and>
   filteredAndSortedTasks localeCompare ts statusFilter priorityFilter tagFilter By_priority q
     = sort_priority_descending
         (tag_stage tagFilter (priority_stage priorityFilter
            (status_stage statusFilter (search_stage q ts)))) \<and>
   sorted_wrt (\<lambda>a b. priority a \<ge> priority b)
     (filteredAndSortedTasks localeCompare ts statusFilter priorityFilter tagFilter By_priority q)"
proof (intro conjI impI)
  assume "priority t1 = 4 \<and> priority t2 = 2 \<and> priority t3 = 3 \<and> priority t4 = 5
      \<and> \<not> completed t1 \<and> \<not> completed t2 \<and> completed t3 \<and> \<not> completed t4"
  then show "filteredAndSortedTasks localeCompare [t1, t2, t3, t4] Status_active None None
            By_priority [] = [t4, t1, t2]"
    by (simp add: filteredAndSortedTasks_def trim_empty Array_sort_def)
next
  show "filteredAndSortedTasks localeCompare ts statusFilter priorityFilter tagFilter By_priority q
     = sort_priority_descending
         (tag_stage tagFilter (priority_stage priorityFilter
            (status_stage statusFilter (search_stage q ts))))"
    by (rule pipeline_by_priority)
next
  show "sorted_wrt (\<lambda>a b. priority a \<ge> priority b)
     (filteredAndSortedTasks localeCompare ts statusFilter priorityFilter tagFilter By_priority q)"
    by (simp only: pipeline_by_priority sorted_priority_descending)
qed

theorem pipeline_active_by_priority_witness:
  "map priority (tasks (initialState 0)) = [4, 2, 3, 5] \<and>
   map completed (tasks (initialState 0)) = [False, False, True, False] \<and>
   map task_id (filteredAndSortedTasks (\<lambda>a b. 0) (tasks (initialState 0)) Status_active None None
      By_priority []) = [''4'', ''1'', ''2'']"
proof -
  obtain t1 t2 t3 t4 where ts: "tasks (initialState 0) = [t1, t2, t3, t4]"
    and p: "priority t1 = 4 \<and> priority t2 = 2 \<and> priority t3 = 3 \<and> priority t4 = 5
      \<and> \<not> completed t1 \<and> \<not> completed t2 \<and> completed t3 \<and> \<not> completed t4"
    and ids: "task_id t1 = ''1''" "task_id t2 = ''2''" "task_id t4 = ''4''"
    by (simp add: initialState_def)
  from pipeline_active_by_priority [of t1 t2 t3 t4 "\<lambda>a b. 0"] p
  have "filteredAndSortedTasks (\<lambda>a b. 0) [t1, t2, t3, t4] Status_active None None By_priority []
          = [t4, t1, t2]"
    by blast
  with ts p ids show ?thesis by simp
qed

lemma parseInt_0: "parseInt ''0'' = Num 0"
  by (simp add: parseInt_def is_space_def digit_value_def Let_def)

text \<open>
  Claim C10. On the value \<^verbatim>\<open>"0"\<close> of the option All Priorities, the handler of the
  priority select sets the priority filter to the number 0, not to null; with that
  filter, for every task list whose priorities all lie in 1..5, the view is empty, for
  every search query, status filter, tag filter and sort key.
\<close>

theorem all_priorities_option_hides_every_task:
  "onPriorityValueChange ''0'' = Some (Num 0) \<and>
   ((\<forall>task \<in> set ts. 1 \<le> priority task \<and> priority task \<le> 5)
      \<longrightarrow> filteredAndSortedTasks localeCompare ts statusFilter (onPriorityValueChange ''0'')
            tagFilter sortBy q = [])"
proof (intro conjI impI)
  show v: "onPriorityValueChange ''0'' = Some (Num 0)"
    by (simp add: onPriorityValueChange_def parseInt_0)
  assume range: "\<forall>task \<in> set ts. 1 \<le> priority task \<and> priority task \<le> 5"
  have none: "filter (\<lambda>task. strict_equals (priority task) (Num 0)) xs = []"
    if "set xs \<subseteq> set ts" for xs
  proof -
    have "priority task \<noteq> 0" if "task \<in> set xs" for task
      using that \<open>set xs \<subseteq> set ts\<close> range by fastforce
    then show ?thesis by (simp add: filter_empty_conv)
  qed
  have "filter (\<lambda>task. strict_equals (priority task) (Num 0))
          (status_stage statusFilter (search_stage q ts)) = []"
    by (rule none) (cases statusFilter; auto simp: search_stage_def)
  then have "tag_stage tagFilter (priority_stage (Some (Num 0))
            (status_stage statusFilter (search_stage q ts))) = []"
    by (cases tagFilter) simp_all
  moreover have "filteredAndSortedTasks localeCompare ts statusFilter (Some (Num 0)) tagFilter sortBy q
    = (case sortBy of
           By_dueDate \<Rightarrow>
             Array_sort (\<lambda>a b. minus_number (getTime (dueDate a)) (getTime (dueDate b)))
         | By_priority \<Rightarrow>
             Array_sort (\<lambda>a b. Num (priority b - priority a))
         | By_name \<Rightarrow>
             Array_sort (\<lambda>a b. Num (localeCompare (task_name a) (task_name b)))
         | By_createdAt \<Rightarrow>
             Array_sort (\<lambda>a b. minus_number (getTime (createdAt b)) (getTime (createdAt a))))
       (tag_stage tagFilter (priority_stage (Some (Num 0))
            (status_stage statusFilter (search_stage q ts))))"
    by (cases statusFilter; cases tagFilter; cases sortBy)
       (simp_all add: filteredAndSortedTasks_def search_stage_def Let_def)
  ultimately show "filteredAndSortedTasks localeCompare ts statusFilter (onPriorityValueChange ''0'')
            tagFilter sortBy q = []"
    by (cases sortBy) (simp_all add: v Array_sort_Nil)
qed

theorem all_priorities_option_hides_every_task_witness:
  "map priority (tasks (initialState 0)) = [4, 2, 3, 5] \<and>
   filteredAndSortedTasks (\<lambda>a b. 0) (tasks (initialState 0)) Status_all
     (onPriorityValueChange ''0'') None By_dueDate [] = []"
proof -
  have h: "\<forall>task \<in> set (tasks (initialState 0)). 1 \<le> priority task \<and> priority task \<le> 5"
    by (simp add: initialState_def)
  have ps: "map priority (tasks (initialState 0)) = [4, 2, 3, 5]"
    by (simp add: initialState_def)
  from all_priorities_option_hides_every_task
         [of "tasks (initialState 0)" "\<lambda>a b. 0" Status_all None By_dueDate "[]"] h ps
  show ?thesis by blast
qed

section \<open>Properties of the reorder\<close>

lemma ids_after_positions:
  "map task_id (map (\<lambda>(index, item). item\<lparr>position := int index\<rparr>) (enumerate n xs))
     = map task_id xs"
  by (induction xs arbitrary: n) simp_all

lemma set_move_item:
  assumes "s < length xs"
  shows "set (take d (take s xs @ drop (Suc s) xs) @ [xs ! s] @ drop d (take s xs @ drop (Suc s) xs))
           = set xs"
proof -
  let ?rest = "take s xs @ drop (Suc s) xs"
  have "set (take d ?rest @ [xs ! s] @ drop d ?rest) = set (take d ?rest @ drop d ?rest) \<union> {xs ! s}"
    by (simp only: set_append) auto
  also have "\<dots> = set ?rest \<union> {xs ! s}"
    by (simp only: append_take_drop_id)
  also have "\<dots> = set (take s xs @ xs ! s # drop (Suc s) xs)"
    by auto
  also have "\<dots> = set xs"
    using assms by (simp only: id_take_nth_drop [symmetric])
  finally show ?thesis .
qed

text \<open>
  After a drop inside the list, the tasks of the state are the displayed tasks and no
  other: the ids are those of the displayed list, and there are as many.
\<close>

lemma drag_keeps_only_displayed:
  assumes "source_index < length displayed"
  shows "\<exists>state'. after_drag state (handleDragEnd displayed source_index (Some destination_index))
             = Some state'
           \<and> task_id ` set (tasks state') = task_id ` set displayed
           \<and> length (tasks state') = length displayed"
proof -
  let ?items2 = "take destination_index (take source_index displayed @ drop (Suc source_index) displayed)
     @ [displayed ! source_index]
     @ drop destination_index (take source_index displayed @ drop (Suc source_index) displayed)"
  let ?updated = "map (\<lambda>(index, item). item\<lparr>position := int index\<rparr>) (enumerate 0 ?items2)"
  have out: "after_drag state (handleDragEnd displayed source_index (Some destination_index))
          = Some (state\<lparr>tasks := ?updated\<rparr>)"
    using assms by (simp add: handleDragEnd_def Let_def)
  have "task_id ` set ?updated = set (map task_id ?updated)"
    by (simp only: set_map)
  also have "\<dots> = set (map task_id ?items2)"
    by (simp only: ids_after_positions)
  also have "\<dots> = task_id ` set ?items2"
    by (simp only: set_map)
  also have "\<dots> = task_id ` set displayed"
    using assms by (simp only: set_move_item)
  finally have ids: "task_id ` set ?updated = task_id ` set displayed" .
  have len: "length ?updated = length displayed"
    using assms by (simp add: min_def)
  from out ids len show ?thesis by simp
qed

text \<open>
  Claim C1 does not hold of the code. With the seed state, the status filter
  \<^verbatim>\<open>active\<close> and the sort key \<^verbatim>\<open>dueDate\<close>, the displayed list is the tasks 4, 1, 2;
  the completed task 3 is hidden. After the first displayed task is dropped at index 1,
  the tasks of the state are 1, 4, 2: task 3 is no longer in the state.
\<close>

theorem drag_under_filter_loses_hidden_task:
  "map task_id (tasks (initialState now)) = [''1'', ''2'', ''3'', ''4''] \<and>
   map task_id (filteredAndSortedTasks localeCompare (tasks (initialState now))
                  Status_active None None By_dueDate []) = [''4'', ''1'', ''2''] \<and>
   map_option (\<lambda>state'. map task_id (tasks state'))
     (after_drag (initialState now)
        (handleDragEnd
           (filteredAndSortedTasks localeCompare (tasks (initialState now))
              Status_active None None By_dueDate []) 0 (Some 1)))
     = Some [''1'', ''4'', ''2'']"
  by (simp add: initialState_def filteredAndSortedTasks_def trim_def Array_sort_def
        day_ms_def handleDragEnd_def Let_def enumerate_eq_zip upt_rec)

section \<open>Properties of the analytics\<close>

text \<open>
  Claim C8. The completion rate of an empty task list is 0; that of a non-empty list is
  the number of completed tasks divided by the number of tasks, times 100, and the
  divisor is not zero.
\<close>

theorem completionRate_formula:
  "(ts = [] \<longrightarrow> completionRate ts = 0) \<and>
   (ts \<noteq> [] \<longrightarrow> real (length ts) \<noteq> 0 \<and>
      completionRate ts = real (length (filter completed ts)) / real (length ts) * 100)"
  by (simp add: completionRate_def totalTasks_def completedTasks_def)

theorem completionRate_formula_witness:
  "tasks (initialState 0) \<noteq> [] \<and> completionRate (tasks (initialState 0)) = 25 \<and>
   completionRate [] = 0"
  using completionRate_formula [of "tasks (initialState 0)"] completionRate_formula [of "[]"]
  by (simp add: initialState_def)

section \<open>Properties of the persistence bridge\<close>

lemma JSON_value_strings:
  "map (\<lambda>x. if x = VUndefined then VNull else JSON_value toISOString x) (map VStr xs)
     = map VStr xs"
  by (induction xs) simp_all

lemma JSON_value_tags:
  "map (\<lambda>x. if x = VUndefined then VNull else JSON_value toISOString x) (map js_of_tag gs)
     = map js_of_tag gs"
  by (induction gs) (simp_all add: js_of_tag_def)

text \<open>The callback of the load effect restores a task that the save effect wrote.\<close>

lemma rehydrate_saved_task:
  assumes "dates_round_trip toISOString Date_parse task"
  shows "rehydrate_task Date_parse (JSON_value toISOString (js_of_task task))
           = Inr (js_of_task task)"
proof -
  obtain due created where d: "dueDate task = Date due" "createdAt task = Date created"
    and rt: "toISOString due \<noteq> []" "Date_parse (VStr (toISOString due)) = Date due"
      "toISOString created \<noteq> []" "Date_parse (VStr (toISOString created)) = Date created"
    using assms
    by (cases "dueDate task"; cases "createdAt task") (auto simp: dates_round_trip_def)
  show ?thesis
  proof (cases "completedAt task")
    case None
    with d rt show ?thesis
      by (simp add: rehydrate_task_def js_of_task_def JSON_value_strings)
  next
    case (Some c)
    with assms obtain t where c: "c = Date t" "toISOString t \<noteq> []"
      "Date_parse (VStr (toISOString t)) = Date t"
      by (cases c) (auto simp: dates_round_trip_def)
    with Some d rt show ?thesis
      by (simp add: rehydrate_task_def js_of_task_def JSON_value_strings)
  qed
qed

lemma rehydrate_saved_tasks:
  assumes "list_all (dates_round_trip toISOString Date_parse) ts"
  shows "map_throwing (rehydrate_task Date_parse)
           (map (\<lambda>x. if x = VUndefined then VNull else JSON_value toISOString x)
              (map js_of_task ts)) = Inr (map js_of_task ts)"
  using assms
proof (induction ts)
  case Nil
  then show ?case by simp
next
  case (Cons task ts)
  have "js_of_task task \<noteq> VUndefined"
    by (simp add: js_of_task_def)
  with Cons show ?case
    by (simp add: rehydrate_saved_task)
qed

lemma tasksWithDates_saved_state:
  assumes "list_all (dates_round_trip toISOString Date_parse) (tasks state)"
  shows "tasksWithDates Date_parse (JSON_value toISOString (js_of_state state))
           = Inr (js_of_state state)"
  using assms
  by (simp add: tasksWithDates_def js_of_state_def rehydrate_saved_tasks JSON_value_tags
        del: map_map)

text \<open>
  The dates of the seed state, written in the format of \<^verbatim>\<open>toISOString\<close> and read
  back.
\<close>

lemma pad_numeral:
  "pad (numeral k) n = pad (pred_numeral k) (n div 10) @ [''0123456789'' ! (n mod 10)]"
  unfolding numeral_eq_Suc by simp

lemmas ISO_parse_defs = ISO_Date_parse_def ISO_parse_def days_from_civil_def digits_value_def
  is_digit_def days_in_month_def TimeClip_def Let_def

lemma seed_date_plus_3: "round_trips ISO_toISOString ISO_Date_parse (Date 1700259200000)"
proof -
  have c: "civil_from_days 19678 = (2023, 11, 17)"
    by code_simp
  have s: "ISO_toISOString 1700259200000 = ''2023-11-17T22:13:20.000Z''"
    unfolding ISO_toISOString_def Let_def by (simp add: c pad_numeral)
  have p: "ISO_Date_parse (VStr ''2023-11-17T22:13:20.000Z'') = Date 1700259200000"
    by (simp add: ISO_parse_defs)
  show ?thesis
    by (simp add: s p)
qed

lemma seed_date_plus_7: "round_trips ISO_toISOString ISO_Date_parse (Date 1700604800000)"
proof -
  have c: "civil_from_days 19682 = (2023, 11, 21)"
    by code_simp
  have s: "ISO_toISOString 1700604800000 = ''2023-11-21T22:13:20.000Z''"
    unfolding ISO_toISOString_def Let_def by (simp add: c pad_numeral)
  have p: "ISO_Date_parse (VStr ''2023-11-21T22:13:20.000Z'') = Date 1700604800000"
    by (simp add: ISO_parse_defs)
  show ?thesis
    by (simp add: s p)
qed

lemma seed_date_minus_2: "round_trips ISO_toISOString ISO_Date_parse (Date 1699827200000)"
proof -
  have c: "civil_from_days 19673 = (2023, 11, 12)"
    by code_simp
  have s: "ISO_toISOString 1699827200000 = ''2023-11-12T22:13:20.000Z''"
    unfolding ISO_toISOString_def Let_def by (simp add: c pad_numeral)
  have p: "ISO_Date_parse (VStr ''2023-11-12T22:13:20.000Z'') = Date 1699827200000"
    by (simp add: ISO_parse_defs)
  show ?thesis
    by (simp add: s p)
qed

lemma seed_date_plus_1: "round_trips ISO_toISOString ISO_Date_parse (Date 1700086400000)"
proof -
  have c: "civil_from_days 19676 = (2023, 11, 15)"
    by code_simp
  have s: "ISO_toISOString 1700086400000 = ''2023-11-15T22:13:20.000Z''"
    unfolding ISO_toISOString_def Let_def by (simp add: c pad_numeral)
  have p: "ISO_Date_parse (VStr ''2023-11-15T22:13:20.000Z'') = Date 1700086400000"
    by (simp add: ISO_parse_defs)
  show ?thesis
    by (simp add: s p)
qed

lemma seed_date_minus_5: "round_trips ISO_toISOString ISO_Date_parse (Date 1699568000000)"
proof -
  have c: "civil_from_days 19670 = (2023, 11, 9)"
    by code_simp
  have s: "ISO_toISOString 1699568000000 = ''2023-11-09T22:13:20.000Z''"
    unfolding ISO_toISOString_def Let_def by (simp add: c pad_numeral)
  have p: "ISO_Date_parse (VStr ''2023-11-09T22:13:20.000Z'') = Date 1699568000000"
    by (simp add: ISO_parse_defs)
  show ?thesis
    by (simp add: s p)
qed

lemma seed_date_minus_10: "round_trips ISO_toISOString ISO_Date_parse (Date 1699136000000)"
proof -
  have c: "civil_from_days 19665 = (2023, 11, 4)"
    by code_simp
  have s: "ISO_toISOString 1699136000000 = ''2023-11-04T22:13:20.000Z''"
    unfolding ISO_toISOString_def Let_def by (simp add: c pad_numeral)
  have p: "ISO_Date_parse (VStr ''2023-11-04T22:13:20.000Z'') = Date 1699136000000"
    by (simp add: ISO_parse_defs)
  show ?thesis
    by (simp add: s p)
qed

lemma seed_date_minus_3: "round_trips ISO_toISOString ISO_Date_parse (Date 1699740800000)"
proof -
  have c: "civil_from_days 19672 = (2023, 11, 11)"
    by code_simp
  have s: "ISO_toISOString 1699740800000 = ''2023-11-11T22:13:20.000Z''"
    unfolding ISO_toISOString_def Let_def by (simp add: c pad_numeral)
  have p: "ISO_Date_parse (VStr ''2023-11-11T22:13:20.000Z'') = Date 1699740800000"
    by (simp add: ISO_parse_defs)
  show ?thesis
    by (simp add: s p)
qed

lemma seed_date_minus_1: "round_trips ISO_toISOString ISO_Date_parse (Date 1699913600000)"
proof -
  have c: "civil_from_days 19674 = (2023, 11, 13)"
    by code_simp
  have s: "ISO_toISOString 1699913600000 = ''2023-11-13T22:13:20.000Z''"
    unfolding ISO_toISOString_def Let_def by (simp add: c pad_numeral)
  have p: "ISO_Date_parse (VStr ''2023-11-13T22:13:20.000Z'') = Date 1699913600000"
    by (simp add: ISO_parse_defs)
  show ?thesis
    by (simp add: s p)
qed

lemma seed_dates_round_trip:
  "list_all (dates_round_trip ISO_toISOString ISO_Date_parse) (tasks (initialState seed_now))"
  using seed_date_plus_3 seed_date_plus_7 seed_date_minus_2 seed_date_plus_1
    seed_date_minus_5 seed_date_minus_10 seed_date_minus_3 seed_date_minus_1
  by (simp add: dates_round_trip_def initialState_def day_ms_def seed_now_def)

text \<open>
  Claim C6, as amended. For every state whose timestamps are all valid dates (dates
  that the platform writes as a string and reads back) and whose numbers are finite (the
  priority and the position of a task of the reducer are integers), and so for every
  such state with a task whose \<^verbatim>\<open>completedAt\<close> is not null, loading what the save
  effect stored gives the state back, whatever the state was before the load, and logs
  nothing. The three timestamp fields of every task are dates again, not strings: the
  result is the run-time value of the state.
\<close>

theorem load_after_save:
  assumes "list_all (dates_round_trip toISOString Date_parse) (tasks state)"
  shows "load_effect Date_parse (save_effect toISOString (js_of_state state) localStorage) current
           = (js_of_state state, [])"
proof -
  have "js_of_state state \<noteq> VUndefined"
    by (simp add: js_of_state_def)
  then show ?thesis
    using assms
    by (simp add: load_effect_def save_effect_def JSON_stringify_def tasksWithDates_saved_state)
qed

theorem load_after_save_witness:
  "list_all (dates_round_trip ISO_toISOString ISO_Date_parse) (tasks (initialState seed_now)) \<and>
   map completedAt (tasks (initialState seed_now))
     = [None, None, Some (Date (seed_now - day_ms)), None] \<and>
   load_effect ISO_Date_parse
     (save_effect ISO_toISOString (js_of_state (initialState seed_now)) Map.empty)
     (js_of_state epoch_state) = (js_of_state (initialState seed_now), [])"
proof -
  have h: "list_all (dates_round_trip ISO_toISOString ISO_Date_parse)
             (tasks (initialState seed_now))"
    by (rule seed_dates_round_trip)
  have c: "map completedAt (tasks (initialState seed_now))
             = [None, None, Some (Date (seed_now - day_ms)), None]"
    by (simp add: initialState_def)
  from load_after_save [OF h, of Map.empty "js_of_state epoch_state"] h c
  show ?thesis by simp
qed

text \<open>
  Claim C6 as it is stated fails in two ways. Each state below has a task whose
  \<^verbatim>\<open>completedAt\<close> is not null. In the first the priority of the task is Infinity:
  the save effect writes it as null, and the load effect leaves null where the number
  was. In the second the creation date of the task is an invalid date: the save effect
  writes it as null, and the load effect reads null as the epoch. So, whatever
  \<^verbatim>\<open>toISOString\<close> and the date parser are, the load gives neither state back.
\<close>

theorem unwritable_values_are_not_restored:
  "(\<exists>task \<in> set (tasks epoch_state). completedAt task \<noteq> None) \<and>
   (\<forall>toISOString Date_parse localStorage current.
      load_effect Date_parse (save_effect toISOString infinite_priority_state localStorage) current
      \<noteq> (infinite_priority_state, [])) \<and>
   (\<exists>task \<in> set (tasks invalid_created_state). completedAt task \<noteq> None) \<and>
   (\<forall>toISOString Date_parse localStorage current.
      load_effect Date_parse
        (save_effect toISOString (js_of_state invalid_created_state) localStorage) current
      \<noteq> (js_of_state invalid_created_state, []))"
  by (simp add: load_effect_def save_effect_def JSON_stringify_def tasksWithDates_def
        rehydrate_task_def js_of_state_def js_of_task_def js_of_tag_def
        infinite_priority_state_def invalid_created_state_def epoch_state_def
        split: sum.splits)

text \<open>
  Both states are states that the component gets from its own load effect: the first
  from a stored priority that is written \<^verbatim>\<open>1e999\<close>, the second from a stored
  creation date that is a string that is no date. The component reads the priority of a
  task for its badge and the priority filter, and the creation date for the sort by
  creation date only, so it renders either state and its save effect stores it.
\<close>

lemma infinite_priority_state_is_loaded:
  "load_effect ISO_Date_parse [''advancedTasks'' \<mapsto> Json_text huge_priority_json] current
     = (infinite_priority_state, [])"
  by (simp add: load_effect_def tasksWithDates_def rehydrate_task_def huge_priority_json_def
        ISO_parse_defs js_of_task_def js_of_tag_def infinite_priority_state_def
        epoch_state_def)

lemma invalid_created_state_is_loaded:
  "load_effect ISO_Date_parse [''advancedTasks'' \<mapsto> Json_text unreadable_created_json] current
     = (js_of_state invalid_created_state, [])"
  by (simp add: load_effect_def tasksWithDates_def rehydrate_task_def
        unreadable_created_json_def ISO_parse_defs js_of_state_def js_of_task_def
        js_of_tag_def invalid_created_state_def epoch_state_def)



end
